theory Spec2Isabelle
  imports Complex_Main
begin

section \<open>The client-side player: data model\<close>

text \<open>
  The component's front end is the JavaScript function exported by \<^verbatim>\<open>_JS\<close> in
  \<^verbatim>\<open>video_player.py\<close>. JavaScript numbers are modelled as exact reals (\<^typ>\<open>real\<close>);
  the value \<^verbatim>\<open>NaN\<close>, which \<^verbatim>\<open>video.duration\<close> has until the metadata is loaded, is
  \<^term>\<open>None\<close>. \<^verbatim>\<open>Date.now()\<close> is an integer number of milliseconds (\<^typ>\<open>int\<close>); the
  timestamp handed to a video-frame callback is a real number of milliseconds.
\<close>

text \<open>The \<^verbatim>\<open>data\<close> object sent by Python; \<^verbatim>\<open>null\<close>/\<^verbatim>\<open>undefined\<close> fields are \<^term>\<open>None\<close>.\<close>

record data =
  d_video_src :: string
  d_seek_to :: "real option"
  d_height :: "int option"
  d_autoplay :: bool
  d_loop :: bool

text \<open>
  The DOM nodes the function works on: the \<^verbatim>\<open><video></video>\<close> element (\<^verbatim>\<open>src\<close>, \<^verbatim>\<open>autoplay\<close>,
  \<^verbatim>\<open>loop\<close>, \<^verbatim>\<open>readyState\<close>, \<^verbatim>\<open>currentTime\<close>, \<^verbatim>\<open>duration\<close>, \<^verbatim>\<open>paused\<close>, \<^verbatim>\<open>ended\<close>,
  \<^verbatim>\<open>style.maxHeight\<close>), the height of the container and the text of the overlay. The
  overlay text is kept as the three numbers it is printed from.
\<close>

record element =
  src :: string
  autoplay :: bool
  loop :: bool
  readyState :: nat
  currentTime :: real
  duration :: "real option"
  paused :: bool
  ended :: bool
  maxHeight :: "int option"
  container_height :: "int option"
  info_textContent :: "(real \<times> int \<times> real) option"

text \<open>
  The variables of one invocation of the exported function (its closure): the five
  \<^verbatim>\<open>let\<close>/\<^verbatim>\<open>const\<close> variables of the function body, the two of \<^verbatim>\<open>detectFps\<close>, and the
  callbacks this invocation has registered and that are still waiting: the one-shot
  \<^verbatim>\<open>play\<close> listener \<^verbatim>\<open>startDetection\<close>, the one-shot \<^verbatim>\<open>loadedmetadata\<close> listeners of the
  seek gate (each with the target it captured), the pending \<^verbatim>\<open>countFrame\<close> video-frame
  callbacks and the pending \<^verbatim>\<open>tick\<close> animation-frame callbacks. \<open>seekWrites\<close> is a
  history variable: the values this invocation has assigned to \<^verbatim>\<open>video.currentTime\<close>, in
  order.
\<close>

record inst =
  detectedFps :: real
  fpsDetectionComplete :: bool
  lastUpdateTime :: int
  lastSeekTo :: "real option"
  frameCount :: nat
  startTime :: "real option"
  startDetection_armed :: bool
  deferredSeeks :: "real list"
  countFrame_pending :: nat
  tick_pending :: nat
  seekWrites :: "real list"

text \<open>The object passed to \<^verbatim>\<open>setStateValue('state', ...)\<close>.\<close>

record snapshot =
  current_time :: real
  frame_number :: int
  duration_s :: real
  fps :: real
  is_playing :: bool

text \<open>
  One call of \<^verbatim>\<open>setStateValue\<close>, logged with the value of \<^verbatim>\<open>Date.now()\<close> read by the
  call of \<^verbatim>\<open>updateState\<close> that made it, the \<^verbatim>\<open>force\<close> argument of that call and the
  element as it was read.
\<close>

record emission =
  em_now :: int
  em_force :: bool
  em_elem :: element
  em_state :: snapshot

datatype js_error = TypeError

definition UPDATE_THROTTLE_MS :: int where
  "UPDATE_THROTTLE_MS = 250"

definition SAMPLE_DURATION_MS :: real where
  "SAMPLE_DURATION_MS = 1000"

section \<open>The state tracker\<close>

text \<open>\<^verbatim>\<open>x || 0\<close> on a number: \<^verbatim>\<open>NaN\<close> and \<open>0\<close> are falsy.\<close>

definition or_zero :: "real option \<Rightarrow> real" where
  "or_zero x = (case x of None \<Rightarrow> 0 | Some r \<Rightarrow> (if r = 0 then 0 else r))"

definition getCurrentFrame :: "inst \<Rightarrow> element \<Rightarrow> int" where
  "getCurrentFrame s e = \<lfloor>currentTime e * detectedFps s\<rfloor>"

definition make_state :: "inst \<Rightarrow> element \<Rightarrow> snapshot" where
  "make_state s e =
     \<lparr>current_time = or_zero (Some (currentTime e)),
      frame_number = getCurrentFrame s e,
      duration_s = or_zero (duration e),
      fps = detectedFps s,
      is_playing = (\<not> paused e \<and> \<not> ended e)\<rparr>"

text \<open>
  \<^verbatim>\<open>updateState(force)\<close>, with \<open>now\<close> the value \<^verbatim>\<open>Date.now()\<close> returns in it. The result
  is the closure, the page and the snapshots emitted (none or one).
\<close>

definition updateState ::
  "bool \<Rightarrow> int \<Rightarrow> inst \<times> element \<Rightarrow> (inst \<times> element) \<times> emission list" where
  "updateState force now = (\<lambda>(s, e).
     if \<not> force \<and> now - lastUpdateTime s < UPDATE_THROTTLE_MS then ((s, e), [])
     else
       let s' = s\<lparr>lastUpdateTime := now\<rparr>;
           state = make_state s' e
       in ((s', e\<lparr>info_textContent :=
                   Some (current_time state, frame_number state, detectedFps s')\<rparr>),
           [\<lparr>em_now = now, em_force = force, em_elem = e, em_state = state\<rparr>]))"

section \<open>The FPS estimator\<close>

text \<open>
  \<^verbatim>\<open>video.requestVideoFrameCallback(countFrame)\<close>. The flag says whether the browser has
  the method (\<^verbatim>\<open>'requestVideoFrameCallback' in HTMLVideoElement.prototype\<close>); calling a
  method the element lacks throws a \<^verbatim>\<open>TypeError\<close>.
\<close>

definition requestVideoFrameCallback :: "bool \<Rightarrow> inst \<Rightarrow> js_error + inst" where
  "requestVideoFrameCallback supported s =
     (if supported then Inr (s\<lparr>countFrame_pending := countFrame_pending s + 1\<rparr>)
      else Inl TypeError)"

text \<open>
  \<^verbatim>\<open>countFrame(now, metadata)\<close>: \<open>now\<close> is the callback's timestamp, \<open>clock\<close> the value
  of \<^verbatim>\<open>Date.now()\<close> in the \<^verbatim>\<open>updateState(true)\<close> it may call.
\<close>

definition countFrame ::
  "bool \<Rightarrow> real \<Rightarrow> int \<Rightarrow> inst \<times> element \<Rightarrow> js_error + ((inst \<times> element) \<times> emission list)" where
  "countFrame supported now clock = (\<lambda>(s, e).
     let (start, count) = (case startTime s of
                             None \<Rightarrow> (now, 0)
                           | Some t \<Rightarrow> (t, frameCount s));
         s' = s\<lparr>startTime := Some start, frameCount := count + 1\<rparr>
     in if now - start \<ge> SAMPLE_DURATION_MS then
          Inr (updateState True clock
            (s'\<lparr>detectedFps := of_int (round (real (frameCount s') / ((now - start) / 1000))),
                fpsDetectionComplete := True\<rparr>, e))
        else
          (case requestVideoFrameCallback supported s' of
             Inl err \<Rightarrow> Inl err
           | Inr s'' \<Rightarrow> Inr ((s'', e), [])))"

text \<open>
  The one-shot \<^verbatim>\<open>play\<close> listener \<^verbatim>\<open>startDetection\<close>: it runs only while it is registered
  and is removed when it runs.
\<close>

definition startDetection :: "bool \<Rightarrow> inst \<Rightarrow> js_error + inst" where
  "startDetection supported s =
     (if startDetection_armed s then
        (let s' = s\<lparr>startDetection_armed := False\<rparr>
         in if \<not> fpsDetectionComplete s' then requestVideoFrameCallback supported s'
            else Inr s')
      else Inr s)"

text \<open>\<^verbatim>\<open>detectFps()\<close>: returns at once without the method, registers the listener with it.\<close>

definition detectFps :: "bool \<Rightarrow> inst \<Rightarrow> inst" where
  "detectFps supported s =
     (if \<not> supported then s else s\<lparr>startDetection_armed := True\<rparr>)"

section \<open>Configuration and the seek gate\<close>

text \<open>
  The block \<^verbatim>\<open>if (data) { ... }\<close>, one definition for each of its parts. A string is
  truthy when it is not empty, a number when it is not \<open>0\<close>.
\<close>

definition apply_src :: "data \<Rightarrow> element \<Rightarrow> element" where
  "apply_src d e =
     (if d_video_src d \<noteq> [] \<and> src e \<noteq> d_video_src d then e\<lparr>src := d_video_src d\<rparr> else e)"

definition apply_height :: "data \<Rightarrow> element \<Rightarrow> element" where
  "apply_height d e =
     (case d_height d of
        None \<Rightarrow> e
      | Some h \<Rightarrow> if h \<noteq> 0 then e\<lparr>maxHeight := Some h, container_height := Some h\<rparr> else e)"

definition apply_autoplay :: "data \<Rightarrow> element \<Rightarrow> element" where
  "apply_autoplay d e = (if d_autoplay d then e\<lparr>autoplay := True\<rparr> else e)"

definition apply_loop :: "data \<Rightarrow> element \<Rightarrow> element" where
  "apply_loop d e = (if d_loop d then e\<lparr>loop := True\<rparr> else e)"

definition seek_gate :: "data \<Rightarrow> inst \<times> element \<Rightarrow> inst \<times> element" where
  "seek_gate d = (\<lambda>(s, e).
     case d_seek_to d of
       None \<Rightarrow> (s, e)
     | Some t \<Rightarrow>
         if Some t \<noteq> lastSeekTo s then
           (let s' = s\<lparr>lastSeekTo := Some t\<rparr>
            in if readyState e \<ge> 1 then
                 (s'\<lparr>seekWrites := seekWrites s' @ [t]\<rparr>, e\<lparr>currentTime := t\<rparr>)
               else (s'\<lparr>deferredSeeks := deferredSeeks s' @ [t]\<rparr>, e))
         else (s, e))"

definition configure :: "data option \<Rightarrow> inst \<times> element \<Rightarrow> inst \<times> element" where
  "configure data = (\<lambda>(s, e).
     case data of
       None \<Rightarrow> (s, e)
     | Some d \<Rightarrow> seek_gate d (s, apply_loop d (apply_autoplay d (apply_height d (apply_src d e)))))"

text \<open>
  The one-shot \<^verbatim>\<open>loadedmetadata\<close> listeners of the seek gate, run in the order of their
  registration and removed.
\<close>

definition run_deferredSeeks :: "inst \<times> element \<Rightarrow> inst \<times> element" where
  "run_deferredSeeks = (\<lambda>(s, e).
     (s\<lparr>deferredSeeks := [], seekWrites := seekWrites s @ deferredSeeks s\<rparr>,
      foldl (\<lambda>e' t. e'\<lparr>currentTime := t\<rparr>) e (deferredSeeks s)))"

section \<open>The exported function and the callbacks it registers\<close>

text \<open>
  The closure's variables as the function body initialises them, with no callback
  registered yet.
\<close>

definition init_inst :: inst where
  "init_inst =
     \<lparr>detectedFps = 30, fpsDetectionComplete = False, lastUpdateTime = 0, lastSeekTo = None,
      frameCount = 0, startTime = None, startDetection_armed = False, deferredSeeks = [],
      countFrame_pending = 0, tick_pending = 0, seekWrites = []\<rparr>"

text \<open>
  One invocation of the exported function on the page \<open>e\<close>: fresh variables, the
  configuration block, \<^verbatim>\<open>detectFps()\<close> and the initial \<^verbatim>\<open>updateState(true)\<close>. The six
  permanent listeners it adds are the cases of \<open>dispatch\<close> below. The result is the
  closure of this invocation and the page; closures that earlier invocations left
  listening on the same page are not followed. What the browser itself does on an
  assignment to the element (loading a new source, clamping a seek) belongs to the
  environment of \<open>step\<close> below.
\<close>

definition component ::
  "bool \<Rightarrow> data option \<Rightarrow> int \<Rightarrow> element \<Rightarrow> (inst \<times> element) \<times> emission list" where
  "component supported data now e =
     (let (s, e') = configure data (init_inst, e)
      in updateState True now (detectFps supported s, e'))"

text \<open>
  What the browser calls: the six media events, an animation frame (which runs one
  pending \<^verbatim>\<open>tick\<close>) and a video frame with its timestamp (which runs one pending
  \<^verbatim>\<open>countFrame\<close>).
\<close>

datatype event =
  LoadedMetadata | Play | Pause | Seeked | Ended | TimeUpdate
  | AnimationFrame | VideoFrame real

definition tick :: "int \<Rightarrow> inst \<times> element \<Rightarrow> (inst \<times> element) \<times> emission list" where
  "tick now = (\<lambda>(s, e).
     if \<not> paused e \<and> \<not> ended e then
       (let ((s', e'), out) = updateState False now (s, e)
        in ((s'\<lparr>tick_pending := tick_pending s' + 1\<rparr>, e'), out))
     else ((s, e), []))"

definition startPlaybackUpdates :: "inst \<Rightarrow> inst" where
  "startPlaybackUpdates s = s\<lparr>tick_pending := tick_pending s + 1\<rparr>"

text \<open>
  The listeners of one event, in the order the function registered them: for
  \<^verbatim>\<open>loadedmetadata\<close> the seek gate's one-shot listeners come before the tracker's, for
  \<^verbatim>\<open>play\<close> the tracker's comes before \<^verbatim>\<open>startDetection\<close>.
\<close>

fun dispatch ::
  "bool \<Rightarrow> event \<Rightarrow> int \<Rightarrow> inst \<times> element \<Rightarrow> js_error + ((inst \<times> element) \<times> emission list)" where
  "dispatch supported LoadedMetadata now st = Inr (updateState True now (run_deferredSeeks st))"
| "dispatch supported Play now (s, e) =
     (let ((s', e'), out) = updateState True now (startPlaybackUpdates s, e)
      in case startDetection supported s' of
           Inl err \<Rightarrow> Inl err
         | Inr s'' \<Rightarrow> Inr ((s'', e'), out))"
| "dispatch supported Pause now st = Inr (updateState True now st)"
| "dispatch supported Seeked now st = Inr (updateState True now st)"
| "dispatch supported Ended now st = Inr (updateState True now st)"
| "dispatch supported TimeUpdate now st = Inr (updateState False now st)"
| "dispatch supported AnimationFrame now (s, e) =
     (if tick_pending s = 0 then Inr ((s, e), [])
      else Inr (tick now (s\<lparr>tick_pending := tick_pending s - 1\<rparr>, e)))"
| "dispatch supported (VideoFrame t) now (s, e) =
     (if countFrame_pending s = 0 then Inr ((s, e), [])
      else countFrame supported t now (s\<lparr>countFrame_pending := countFrame_pending s - 1\<rparr>, e))"

text \<open>
  One step of a page's life: the browser changes the element as it likes (playback
  advances, the user scrubs, metadata arrives), then calls back with an event at wall-clock
  time \<open>occ_now\<close>.
\<close>

record occurrence =
  occ_env :: "element \<Rightarrow> element"
  occ_now :: int
  occ_event :: event

definition step ::
  "bool \<Rightarrow> occurrence \<Rightarrow> inst \<times> element \<Rightarrow> js_error + ((inst \<times> element) \<times> emission list)" where
  "step supported oc = (\<lambda>(s, e). dispatch supported (occ_event oc) (occ_now oc) (s, occ_env oc e))"

text \<open>A sequence of steps; an exception ends it. The emissions are collected in order.\<close>

fun run ::
  "bool \<Rightarrow> occurrence list \<Rightarrow> inst \<times> element \<Rightarrow> js_error + ((inst \<times> element) \<times> emission list)" where
  "run supported [] st = Inr (st, [])"
| "run supported (oc # ocs) st =
     (case step supported oc st of
        Inl err \<Rightarrow> Inl err
      | Inr (st', out) \<Rightarrow>
          (case run supported ocs st' of
             Inl err \<Rightarrow> Inl err
           | Inr (st'', out') \<Rightarrow> Inr (st'', out @ out')))"

section \<open>The host side: preparing the source and calling the component\<close>

type_synonym bytes = "char list"

text \<open>
  What \<^verbatim>\<open>video_player\<close> may be given as \<^verbatim>\<open>source\<close>: \<^verbatim>\<open>bytes\<close>, a \<^verbatim>\<open>Path\<close> (kept as the
  string \<^verbatim>\<open>str(source)\<close> makes of it), a \<^verbatim>\<open>str\<close>, or a value of another type (kept as
  the text of its type).
\<close>

datatype source = Bytes bytes | PathObj string | Str string | Unsupported string

text \<open>The file system: a path has no entry, or names a file with its content, or a directory.\<close>

datatype fs_node = File bytes | Directory

type_synonym filesystem = "string \<Rightarrow> fs_node option"

datatype py_error = FileNotFoundError string | IsADirectoryError string | PyTypeError string

definition startswith :: "string \<Rightarrow> string list \<Rightarrow> bool" where
  "startswith s ps = list_ex (\<lambda>p. take (length p) s = p) ps"

text \<open>
  \<^verbatim>\<open>_get_mime_type\<close>; \<open>guess_type\<close> stands for the first component of
  \<^verbatim>\<open>mimetypes.guess_type\<close>, a function of Python's standard library.
\<close>

definition get_mime_type :: "(string \<Rightarrow> string option) \<Rightarrow> string \<Rightarrow> string" where
  "get_mime_type guess_type file_path =
     (case guess_type file_path of
        None \<Rightarrow> ''video/mp4''
      | Some m \<Rightarrow> if m = [] then ''video/mp4'' else m)"

text \<open>
  \<^verbatim>\<open>_prepare_video_source\<close>; \<open>b64encode\<close> stands for \<^verbatim>\<open>base64.b64encode(...).decode()\<close>.
\<close>

definition prepare_str ::
  "(string \<Rightarrow> string option) \<Rightarrow> (bytes \<Rightarrow> string) \<Rightarrow> filesystem \<Rightarrow> string \<Rightarrow> py_error + string" where
  "prepare_str guess_type b64encode fs source =
     (if startswith source [''data:'', ''http://'', ''https://'', ''blob:''] then Inr source
      else
        (case fs source of
           Some (File content) \<Rightarrow>
             Inr (''data:'' @ get_mime_type guess_type source @ '';base64,'' @ b64encode content)
         | Some Directory \<Rightarrow> Inl (IsADirectoryError source)
         | None \<Rightarrow> Inl (FileNotFoundError (''Video file not found: '' @ source))))"

fun prepare_video_source ::
  "(string \<Rightarrow> string option) \<Rightarrow> (bytes \<Rightarrow> string) \<Rightarrow> filesystem \<Rightarrow> source \<Rightarrow> py_error + string" where
  "prepare_video_source guess_type b64encode fs (Bytes b) =
     Inr (''data:video/mp4;base64,'' @ b64encode b)"
| "prepare_video_source guess_type b64encode fs (PathObj p) =
     prepare_str guess_type b64encode fs p"
| "prepare_video_source guess_type b64encode fs (Str s) =
     prepare_str guess_type b64encode fs s"
| "prepare_video_source guess_type b64encode fs (Unsupported ty) =
     Inl (PyTypeError (''Unsupported source type: '' @ ty))"

text \<open>The dataclass \<^verbatim>\<open>VideoState\<close> and its defaults.\<close>

record VideoState =
  vs_current_time :: real
  vs_frame_number :: int
  vs_duration :: real
  vs_fps :: real
  vs_is_playing :: bool

definition VideoState_default :: VideoState where
  "VideoState_default =
     \<lparr>vs_current_time = 0, vs_frame_number = 0, vs_duration = 0, vs_fps = 30,
      vs_is_playing = False\<rparr>"

text \<open>
  What the registered component returns to Python: \<^verbatim>\<open>None\<close>, an object (with the value
  of its attribute \<^verbatim>\<open>state\<close>, \<open>StateNone\<close> when it has none), a plain dictionary (with the
  value under the key \<^verbatim>\<open>"state"\<close>, if the key is there) or something else. A state
  dictionary may lack any of its keys.
\<close>

record state_dict =
  sd_current_time :: "real option"
  sd_frame_number :: "int option"
  sd_duration :: "real option"
  sd_fps :: "real option"
  sd_is_playing :: "bool option"

datatype py_state = StateNone | StateDict state_dict | StateOther

datatype component_result =
  ResultNone | ResultObject py_state | ResultDict "py_state option" | ResultOther

definition from_state_dict :: "state_dict \<Rightarrow> VideoState" where
  "from_state_dict sd =
     \<lparr>vs_current_time = (case sd_current_time sd of None \<Rightarrow> 0 | Some x \<Rightarrow> x),
      vs_frame_number = (case sd_frame_number sd of None \<Rightarrow> 0 | Some x \<Rightarrow> x),
      vs_duration = (case sd_duration sd of None \<Rightarrow> 0 | Some x \<Rightarrow> x),
      vs_fps = (case sd_fps sd of None \<Rightarrow> 30 | Some x \<Rightarrow> x),
      vs_is_playing = (case sd_is_playing sd of None \<Rightarrow> False | Some x \<Rightarrow> x)\<rparr>"

definition default_state :: state_dict where
  "default_state =
     \<lparr>sd_current_time = Some 0, sd_frame_number = Some 0, sd_duration = Some 0,
      sd_fps = Some 30, sd_is_playing = Some False\<rparr>"

definition to_VideoState :: "component_result \<Rightarrow> VideoState" where
  "to_VideoState result =
     (case result of
        ResultNone \<Rightarrow> VideoState_default
      | _ \<Rightarrow>
        (let state_dict =
               (case result of
                  ResultObject StateNone \<Rightarrow> StateDict default_state
                | ResultObject st \<Rightarrow> st
                | ResultDict None \<Rightarrow> StateDict default_state
                | ResultDict (Some st) \<Rightarrow> st
                | _ \<Rightarrow> StateDict default_state)
         in case state_dict of
              StateDict sd \<Rightarrow> from_state_dict sd
            | _ \<Rightarrow> VideoState_default))"

text \<open>
  \<^verbatim>\<open>video_player\<close>. \<open>call_component\<close> stands for the registered component
  \<^verbatim>\<open>_component\<close>, called with the \<^verbatim>\<open>data\<close> dictionary and the key; \<open>page\<close> is the list of
  the component calls made so far in this script run, which a call of \<^verbatim>\<open>_component\<close>
  extends. The result is the exception or the returned state, and the page afterwards.
\<close>

definition video_player ::
  "(string \<Rightarrow> string option) \<Rightarrow> (bytes \<Rightarrow> string) \<Rightarrow> filesystem \<Rightarrow>
   (data \<Rightarrow> string option \<Rightarrow> component_result) \<Rightarrow>
   source \<Rightarrow> string option \<Rightarrow> real option \<Rightarrow> int \<Rightarrow> bool \<Rightarrow> bool \<Rightarrow>
   (data \<times> string option) list \<Rightarrow> (py_error + VideoState) \<times> (data \<times> string option) list" where
  "video_player guess_type b64encode fs call_component source key seek_to height
       autoplay_arg loop_arg page =
     (case prepare_video_source guess_type b64encode fs source of
        Inl err \<Rightarrow> (Inl err, page)
      | Inr video_src \<Rightarrow>
          (let d = \<lparr>d_video_src = video_src, d_seek_to = seek_to, d_height = Some height,
                    d_autoplay = autoplay_arg, d_loop = loop_arg\<rparr>;
               result = call_component d key
           in (Inr (to_VideoState result), page @ [(d, key)])))"

section \<open>Notions used to state the properties\<close>

text \<open>The page as the HTML template creates it: a video element with nothing loaded.\<close>

definition initial_element :: element where
  "initial_element =
     \<lparr>src = [], autoplay = False, loop = False, readyState = 0, currentTime = 0,
      duration = None, paused = True, ended = False, maxHeight = None,
      container_height = None, info_textContent = None\<rparr>"

text \<open>The snapshots a step or a run emitted (none when it ended in an exception).\<close>

definition emitted :: "js_error + ((inst \<times> element) \<times> emission list) \<Rightarrow> emission list" where
  "emitted r = (case r of Inl _ \<Rightarrow> [] | Inr (_, out) \<Rightarrow> out)"


text \<open>The non-forced emissions of a log whose timestamp lies in the window from \<open>a\<close> to \<open>a + w\<close>.\<close>

definition nonforced_in_window :: "int \<Rightarrow> int \<Rightarrow> emission list \<Rightarrow> emission list" where
  "nonforced_in_window a w out =
     filter (\<lambda>em. \<not> em_force em \<and> a \<le> em_now em \<and> em_now em \<le> a + w) out"

text \<open>
  What holds of the estimator's variables in every state the exported function and its
  callbacks can reach: at most one \<^verbatim>\<open>countFrame\<close> is pending, and none while
  \<^verbatim>\<open>startDetection\<close> still waits for the first \<^verbatim>\<open>play\<close>; after convergence nothing is
  registered any more; before it the rate is the fallback; without the browser method
  nothing is ever registered.
\<close>

definition estimator_inv :: "bool \<Rightarrow> inst \<Rightarrow> bool" where
  "estimator_inv supported s \<longleftrightarrow>
     countFrame_pending s \<le> 1 \<and>
     (startDetection_armed s \<longrightarrow> countFrame_pending s = 0 \<and> \<not> fpsDetectionComplete s) \<and>
     (fpsDetectionComplete s \<longrightarrow> countFrame_pending s = 0 \<and> \<not> startDetection_armed s) \<and>
     (\<not> fpsDetectionComplete s \<longrightarrow> detectedFps s = 30) \<and>
     (\<not> supported \<longrightarrow> countFrame_pending s = 0 \<and> \<not> startDetection_armed s \<and>
        \<not> fpsDetectionComplete s) \<and>
     0 \<le> detectedFps s"

text \<open>
  An emission whose snapshot is the one \<open>make_state\<close> builds from the element it logged
  and the rate it carries.
\<close>

definition faithful :: "emission \<Rightarrow> bool" where
  "faithful em \<longleftrightarrow>
     em_state em =
       \<lparr>current_time = currentTime (em_elem em),
        frame_number = \<lfloor>currentTime (em_elem em) * fps (em_state em)\<rfloor>,
        duration_s = or_zero (duration (em_elem em)),
        fps = fps (em_state em),
        is_playing = (\<not> paused (em_elem em) \<and> \<not> ended (em_elem em))\<rparr>"

text \<open>Two closures that agree on everything the estimator owns.\<close>

definition same_estimate :: "inst \<Rightarrow> inst \<Rightarrow> bool" where
  "same_estimate s s' \<longleftrightarrow> detectedFps s' = detectedFps s \<and> fpsDetectionComplete s' = fpsDetectionComplete s
     \<and> frameCount s' = frameCount s \<and> startTime s' = startTime s \<and> countFrame_pending s' = countFrame_pending s
     \<and> startDetection_armed s' = startDetection_armed s"

text \<open>An estimator with no callback registered.\<close>

definition idle :: "inst \<Rightarrow> bool" where
  "idle s \<longleftrightarrow> countFrame_pending s = 0 \<and> \<not> startDetection_armed s"

section \<open>What one call of \<open>updateState\<close> does\<close>

lemma updateState_throttled:
  "\<not> force \<Longrightarrow> now - lastUpdateTime s < 250 \<Longrightarrow> updateState force now (s, e) = ((s, e), [])"
  by (simp add: updateState_def UPDATE_THROTTLE_MS_def)

lemma updateState_emits:
  "force \<or> 250 \<le> now - lastUpdateTime s \<Longrightarrow>
   updateState force now (s, e) =
     ((s\<lparr>lastUpdateTime := now\<rparr>,
       e\<lparr>info_textContent := Some (currentTime e, \<lfloor>currentTime e * detectedFps s\<rfloor>, detectedFps s)\<rparr>),
      [\<lparr>em_now = now, em_force = force, em_elem = e,
        em_state = \<lparr>current_time = currentTime e, frame_number = \<lfloor>currentTime e * detectedFps s\<rfloor>,
                    duration_s = (case duration e of None \<Rightarrow> 0 | Some r \<Rightarrow> r), fps = detectedFps s,
                    is_playing = (\<not> paused e \<and> \<not> ended e)\<rparr>\<rparr>])"
  by (auto simp add: updateState_def UPDATE_THROTTLE_MS_def make_state_def or_zero_def getCurrentFrame_def Let_def split: option.splits)

lemma updateState_cases:
  obtains (throttled) "\<not> force" "now - lastUpdateTime s < 250" "updateState force now (s, e) = ((s, e), [])"
  | (emits) "force \<or> 250 \<le> now - lastUpdateTime s"
      "updateState force now (s, e) =
     ((s\<lparr>lastUpdateTime := now\<rparr>,
       e\<lparr>info_textContent := Some (currentTime e, \<lfloor>currentTime e * detectedFps s\<rfloor>, detectedFps s)\<rparr>),
      [\<lparr>em_now = now, em_force = force, em_elem = e,
        em_state = \<lparr>current_time = currentTime e, frame_number = \<lfloor>currentTime e * detectedFps s\<rfloor>,
                    duration_s = (case duration e of None \<Rightarrow> 0 | Some r \<Rightarrow> r), fps = detectedFps s,
                    is_playing = (\<not> paused e \<and> \<not> ended e)\<rparr>\<rparr>])"
  using updateState_throttled [of force now s e] updateState_emits [of force now s e]
  by (cases "force \<or> 250 \<le> now - lastUpdateTime s") auto

lemma updateState_result:
  assumes "updateState force now (s, e) = ((s', e'), out)"
  shows "(s' = s \<or> s' = s\<lparr>lastUpdateTime := now\<rparr>) \<and>
         currentTime e' = currentTime e \<and>
         (\<forall>em\<in>set out. em_elem em = e \<and> em_force em = force \<and> em_now em = now \<and>
            em_state em = make_state s e)"
  using assms
  by (cases rule: updateState_cases [of force now s e])
     (auto simp: make_state_def or_zero_def getCurrentFrame_def split: option.splits)


lemma updateState_sound:
  assumes "updateState force now (s, e) = ((s', e'), out)"
  shows "(s' = s \<or> s' = s\<lparr>lastUpdateTime := now\<rparr>) \<and>
         (\<forall>em\<in>set out. faithful em \<and> fps (em_state em) = detectedFps s)"
  using assms
  by (cases rule: updateState_cases [of force now s e])
     (auto simp: faithful_def or_zero_def split: option.splits)

lemma estimator_inv_lastUpdateTime [simp]:
  "estimator_inv supported (s\<lparr>lastUpdateTime := t\<rparr>) = estimator_inv supported s"
  by (simp add: estimator_inv_def)

lemma estimator_inv_tick_pending [simp]:
  "estimator_inv supported (s\<lparr>tick_pending := t\<rparr>) = estimator_inv supported s"
  by (simp add: estimator_inv_def)

lemma updateState_step:
  assumes "estimator_inv supported s"
  shows "\<exists>s' e' out. updateState force now (s, e) = ((s', e'), out) \<and> estimator_inv supported s' \<and>
     same_estimate s s' \<and> tick_pending s' = tick_pending s \<and>
     (\<forall>em\<in>set out. faithful em \<and> fps (em_state em) = detectedFps s')"
  using assms
  by (cases rule: updateState_cases [of force now s e])
     (auto simp: faithful_def or_zero_def same_estimate_def split: option.splits)


lemma same_estimate_refl [simp]: "same_estimate s s"
  by (simp add: same_estimate_def)

lemma same_estimate_inv:
  "same_estimate s s' \<Longrightarrow> estimator_inv supported s \<Longrightarrow> estimator_inv supported s'"
  by (simp add: same_estimate_def estimator_inv_def)

lemma same_estimate_trans:
  "same_estimate s s' \<Longrightarrow> same_estimate s' s'' \<Longrightarrow> same_estimate s s''"
  by (simp add: same_estimate_def)

lemma same_estimate_other [simp]:
  "same_estimate s (s'\<lparr>tick_pending := t\<rparr>) = same_estimate s s'"
  "same_estimate (s\<lparr>tick_pending := t\<rparr>) s' = same_estimate s s'"
  "same_estimate s (s'\<lparr>deferredSeeks := ds\<rparr>) = same_estimate s s'"
  "same_estimate s (s'\<lparr>seekWrites := ws\<rparr>) = same_estimate s s'"
  "same_estimate (s\<lparr>deferredSeeks := ds\<rparr>) s' = same_estimate s s'"
  "same_estimate (s\<lparr>seekWrites := ws\<rparr>) s' = same_estimate s s'"
  by (simp_all add: same_estimate_def)

lemma startDetection_sound:
  assumes "estimator_inv supported s"
  shows "\<exists>s'. startDetection supported s = Inr s' \<and> estimator_inv supported s' \<and>
           detectedFps s' = detectedFps s \<and> fpsDetectionComplete s' = fpsDetectionComplete s \<and>
           frameCount s' = frameCount s \<and> startTime s' = startTime s \<and>
           lastUpdateTime s' = lastUpdateTime s \<and> deferredSeeks s' = deferredSeeks s \<and>
           seekWrites s' = seekWrites s \<and>
           (idle s \<longrightarrow> s' = s)"
  using assms
  by (auto simp: startDetection_def requestVideoFrameCallback_def estimator_inv_def idle_def Let_def)

lemma countFrame_sound:
  assumes "estimator_inv supported (s\<lparr>countFrame_pending := Suc (countFrame_pending s)\<rparr>)"
  shows "\<exists>s' e' out. countFrame supported t now (s, e) = Inr ((s', e'), out) \<and>
           estimator_inv supported s' \<and>
           (\<forall>em\<in>set out. faithful em \<and> fps (em_state em) = detectedFps s')"
proof -
  from assms have p: "countFrame_pending s = 0" "\<not> startDetection_armed s"
    "\<not> fpsDetectionComplete s" "supported" "detectedFps s = 30"
    by (auto simp: estimator_inv_def)
  obtain start count where sc:
    "(case startTime s of None \<Rightarrow> (t, 0) | Some u \<Rightarrow> (u, frameCount s)) = (start, count)"
    by (cases "case startTime s of None \<Rightarrow> (t, 0::nat) | Some u \<Rightarrow> (u, frameCount s)") auto
  show ?thesis
  proof (cases "t - start \<ge> 1000")
    case True
    let ?s2 = "s\<lparr>startTime := Some start, frameCount := count + 1,
       detectedFps := of_int (round (real (count + 1) / ((t - start) / 1000))),
       fpsDetectionComplete := True\<rparr>"
    have nonneg: "0 \<le> round (real (count + 1) / ((t - start) / 1000))"
      using True by (intro round_mono [of 0, simplified]) simp
    have inv2: "estimator_inv supported ?s2"
      using p nonneg by (simp add: estimator_inv_def)
    from updateState_step [OF inv2, of True now e]
    obtain s' e' out where u: "updateState True now (?s2, e) = ((s', e'), out)"
      "estimator_inv supported s'"
      "\<forall>em\<in>set out. faithful em \<and> fps (em_state em) = detectedFps s'"
      by blast
    have "countFrame supported t now (s, e) = Inr ((s', e'), out)"
      using True sc u(1) by (simp add: countFrame_def SAMPLE_DURATION_MS_def Let_def)
    with u show ?thesis by blast
  next
    case False
    then show ?thesis
      using sc p
      by (simp add: countFrame_def SAMPLE_DURATION_MS_def Let_def
          requestVideoFrameCallback_def estimator_inv_def)
  qed
qed


lemma dispatch_sound:
  assumes inv: "estimator_inv supported s"
  shows "\<exists>s' e' out. dispatch supported ev now (s, e) = Inr ((s', e'), out) \<and>
           estimator_inv supported s' \<and>
           (\<forall>em\<in>set out. faithful em \<and> fps (em_state em) = detectedFps s') \<and>
           (idle s \<longrightarrow> same_estimate s s')"
proof (cases ev)
  case LoadedMetadata
  obtain s1 e1 where r: "run_deferredSeeks (s, e) = (s1, e1)" by force
  then have s1: "s1 = s\<lparr>deferredSeeks := [], seekWrites := seekWrites s @ deferredSeeks s\<rparr>"
    by (auto simp: run_deferredSeeks_def)
  have 1: "estimator_inv supported s1" "same_estimate s s1"
    using inv by (simp_all add: s1 estimator_inv_def)
  from updateState_step [OF 1(1), of True now e1] 1(2) show ?thesis
    using LoadedMetadata r by (auto intro: same_estimate_trans)
next
  case Play
  have 1: "estimator_inv supported (startPlaybackUpdates s)"
    "same_estimate s (startPlaybackUpdates s)"
    using inv by (simp_all add: startPlaybackUpdates_def)
  from updateState_step [OF 1(1), of True now e]
  obtain s' e' out where u: "updateState True now (startPlaybackUpdates s, e) = ((s', e'), out)"
     "estimator_inv supported s'" "same_estimate (startPlaybackUpdates s) s'"
     "\<forall>em\<in>set out. faithful em \<and> fps (em_state em) = detectedFps s'"
    by blast
  from startDetection_sound [OF u(2)]
  obtain s'' where d: "startDetection supported s' = Inr s''" "estimator_inv supported s''"
    "detectedFps s'' = detectedFps s'" "idle s' \<longrightarrow> s'' = s'"
    by blast
  have "dispatch supported ev now (s, e) = Inr ((s'', e'), out)"
    using Play u(1) d(1) by simp
  moreover have "idle s \<longrightarrow> same_estimate s s''"
    using 1(2) u(3) d(4) by (auto simp: same_estimate_def idle_def)
  ultimately show ?thesis using d(2,3) u(4) by auto
next
  case Pause
  from updateState_step [OF inv, of True now e] show ?thesis using Pause by auto
next
  case Seeked
  from updateState_step [OF inv, of True now e] show ?thesis using Seeked by auto
next
  case Ended
  from updateState_step [OF inv, of True now e] show ?thesis using Ended by auto
next
  case TimeUpdate
  from updateState_step [OF inv, of False now e] show ?thesis using TimeUpdate by auto
next
  case AnimationFrame
  show ?thesis
  proof (cases "tick_pending s = 0 \<or> paused e \<or> ended e")
    case True
    then show ?thesis using AnimationFrame inv by (auto simp: tick_def)
  next
    case False
    let ?s = "s\<lparr>tick_pending := tick_pending s - 1\<rparr>"
    have 1: "estimator_inv supported ?s" "same_estimate s ?s" using inv by simp_all
    from updateState_step [OF 1(1), of False now e]
    obtain s' e' out where u: "updateState False now (?s, e) = ((s', e'), out)"
     "estimator_inv supported s'" "same_estimate ?s s'"
     "\<forall>em\<in>set out. faithful em \<and> fps (em_state em) = detectedFps s'"
      by blast
    have "dispatch supported ev now (s, e) = Inr ((s'\<lparr>tick_pending := tick_pending s' + 1\<rparr>, e'), out)"
      using AnimationFrame False u(1) by (simp add: tick_def)
    then show ?thesis using u by simp
  qed
next
  case (VideoFrame t)
  show ?thesis
  proof (cases "countFrame_pending s = 0")
    case True
    then show ?thesis using VideoFrame inv by simp
  next
    case False
    let ?s = "s\<lparr>countFrame_pending := countFrame_pending s - 1\<rparr>"
    have "?s\<lparr>countFrame_pending := Suc (countFrame_pending ?s)\<rparr> = s"
      using False by simp
    with inv have "estimator_inv supported (?s\<lparr>countFrame_pending := Suc (countFrame_pending ?s)\<rparr>)"
      by simp
    from countFrame_sound [OF this, of t now e]
    obtain s' e' out where c: "countFrame supported t now (?s, e) = Inr ((s', e'), out)"
      "estimator_inv supported s'"
      "\<forall>em\<in>set out. faithful em \<and> fps (em_state em) = detectedFps s'"
      by blast
    have "\<not> idle s" using False by (simp add: idle_def)
    then show ?thesis using VideoFrame False c by simp
  qed
qed

lemma step_sound:
  assumes inv: "estimator_inv supported s"
  shows "\<exists>s' e' out. step supported oc (s, e) = Inr ((s', e'), out) \<and>
           estimator_inv supported s' \<and>
           (\<forall>em\<in>set out. faithful em \<and> fps (em_state em) = detectedFps s') \<and>
           (idle s \<longrightarrow> same_estimate s s')"
  using dispatch_sound [OF inv] by (simp add: step_def)

lemma run_sound:
  assumes "estimator_inv supported s"
  shows "\<exists>s' e' out. run supported ocs (s, e) = Inr ((s', e'), out) \<and>
           estimator_inv supported s' \<and>
           (\<forall>em\<in>set out. faithful em \<and> 0 \<le> fps (em_state em) \<and>
              (\<not> fpsDetectionComplete s' \<longrightarrow> fps (em_state em) = 30) \<and>
              (idle s \<longrightarrow> fps (em_state em) = detectedFps s)) \<and>
           (idle s \<longrightarrow> same_estimate s s')"
  using assms
proof (induction ocs arbitrary: s e)
  case Nil
  then show ?case by simp
next
  case (Cons oc ocs)
  from step_sound [OF Cons.prems, of oc e]
  obtain s1 e1 out1 where 1: "step supported oc (s, e) = Inr ((s1, e1), out1)"
    "estimator_inv supported s1"
    "\<forall>em\<in>set out1. faithful em \<and> fps (em_state em) = detectedFps s1"
    "idle s \<longrightarrow> same_estimate s s1"
    by blast
  from Cons.IH [OF 1(2), of e1]
  obtain s2 e2 out2 where 2: "run supported ocs (s1, e1) = Inr ((s2, e2), out2)"
    "estimator_inv supported s2"
    "\<forall>em\<in>set out2. faithful em \<and> 0 \<le> fps (em_state em) \<and>
              (\<not> fpsDetectionComplete s2 \<longrightarrow> fps (em_state em) = 30) \<and>
              (idle s1 \<longrightarrow> fps (em_state em) = detectedFps s1)"
    "idle s1 \<longrightarrow> same_estimate s1 s2"
    by blast
  have r: "run supported (oc # ocs) (s, e) = Inr ((s2, e2), out1 @ out2)"
    using 1(1) 2(1) by simp
  have a: "0 \<le> detectedFps s1" using 1(2) by (simp add: estimator_inv_def)
  have b: "\<not> fpsDetectionComplete s2 \<longrightarrow> detectedFps s1 = 30"
    using 1(2) 2(4) by (auto simp: estimator_inv_def same_estimate_def idle_def)
  have c: "idle s \<longrightarrow> idle s1 \<and> detectedFps s1 = detectedFps s"
    using 1(4) by (auto simp: same_estimate_def idle_def)
  have d: "idle s \<longrightarrow> same_estimate s s2"
    using 1(4) 2(4) c by (auto intro: same_estimate_trans)
  show ?case
    using r 2(2) 1(3) 2(3) a b c d by auto
qed


section \<open>The exported function establishes the estimator's invariant\<close>

lemma configure_estimator:
  "configure d (s, e) = (s', e') \<Longrightarrow> same_estimate s s' \<and> lastUpdateTime s' = lastUpdateTime s"
  by (auto simp: configure_def seek_gate_def same_estimate_def Let_def
      split: option.splits if_splits)

lemma component_sound:
  "\<exists>s e' em. component supported d now e = ((s, e'), [em]) \<and> estimator_inv supported s \<and>
     \<not> fpsDetectionComplete s \<and> faithful em \<and> fps (em_state em) = 30 \<and> em_force em \<and>
     em_now em = now"
proof -
  obtain s1 e1 where c: "configure d (init_inst, e) = (s1, e1)" by force
  from configure_estimator [OF c]
  have 1: "estimator_inv supported (detectFps supported s1)"
    "\<not> fpsDetectionComplete (detectFps supported s1)"
    "detectedFps (detectFps supported s1) = 30"
    by (auto simp: same_estimate_def init_inst_def estimator_inv_def detectFps_def)
  have "component supported d now e = updateState True now (detectFps supported s1, e1)"
    using c by (simp add: component_def)
  then show ?thesis
    using updateState_emits [of True now "detectFps supported s1" e1] 1
    by (simp add: faithful_def or_zero_def split: option.splits)
qed

section \<open>Frame numbers\<close>



section \<open>Throttling\<close>







text \<open>The bound is attained: three emissions in a window of 500 ms.\<close>

lemma throttle_window_bound_attained:
  "length (nonforced_in_window 1000 500 (emitted (run True
        [\<lparr>occ_env = id, occ_now = 1000, occ_event = TimeUpdate\<rparr>,
         \<lparr>occ_env = id, occ_now = 1100, occ_event = TimeUpdate\<rparr>,
         \<lparr>occ_env = id, occ_now = 1250, occ_event = TimeUpdate\<rparr>,
         \<lparr>occ_env = id, occ_now = 1500, occ_event = TimeUpdate\<rparr>]
        (init_inst, initial_element)))) = 3"
  by (simp add: step_def updateState_def UPDATE_THROTTLE_MS_def init_inst_def Let_def
      emitted_def nonforced_in_window_def)



section \<open>Evaluating the model on concrete inputs\<close>

lemmas eval_defs =
  component_def configure_def detectFps_def init_inst_def initial_element_def updateState_def
  make_state_def or_zero_def getCurrentFrame_def UPDATE_THROTTLE_MS_def SAMPLE_DURATION_MS_def
  step_def startPlaybackUpdates_def startDetection_def requestVideoFrameCallback_def
  countFrame_def tick_def run_deferredSeeks_def seek_gate_def apply_src_def apply_height_def
  apply_autoplay_def apply_loop_def emitted_def Let_def

section \<open>FPS detection\<close>



text \<open>
  The exported function leaves \<^verbatim>\<open>startDetection\<close> registered; the first \<^verbatim>\<open>play\<close> event
  removes it and requests the first frame callback, and a second \<^verbatim>\<open>play\<close> event requests
  nothing more.
\<close>

lemma first_play_arms_sampler:
  "\<exists>s e' out. component True d now0 e0 = ((s, e'), out) \<and>
     startDetection_armed s \<and> countFrame_pending s = 0 \<and>
     (\<exists>s1 e1 out1. dispatch True Play now1 (s, e2) = Inr ((s1, e1), out1) \<and>
        \<not> startDetection_armed s1 \<and> countFrame_pending s1 = 1 \<and>
        (\<exists>s2 e3 out2. dispatch True Play now2 (s1, e4) = Inr ((s2, e3), out2) \<and>
           \<not> startDetection_armed s2 \<and> countFrame_pending s2 = 1))"
proof -
  have play: "\<exists>s1 e1 em. dispatch True Play now (s, e) = Inr ((s1, e1), [em]) \<and>
      startDetection_armed s1 = False \<and>
      countFrame_pending s1 =
        (if startDetection_armed s \<and> \<not> fpsDetectionComplete s then countFrame_pending s + 1
         else countFrame_pending s)" for now s e
    using updateState_emits [of True now "startPlaybackUpdates s" e]
    by (simp add: startPlaybackUpdates_def startDetection_def requestVideoFrameCallback_def)
  obtain s1' e1' where cf: "configure d (init_inst, e0) = (s1', e1')" by force
  from configure_estimator [OF cf] have se: "same_estimate init_inst s1'" by simp
  have c: "component True d now0 e0 = updateState True now0 (s1'\<lparr>startDetection_armed := True\<rparr>, e1')"
    using cf by (simp add: component_def detectFps_def)
  obtain s e' out where u: "component True d now0 e0 = ((s, e'), out)"
    "s = s1'\<lparr>startDetection_armed := True, lastUpdateTime := now0\<rparr>"
    unfolding c using updateState_emits [of True now0 "s1'\<lparr>startDetection_armed := True\<rparr>" e1']
    by simp
  have s: "startDetection_armed s" "countFrame_pending s = 0" "\<not> fpsDetectionComplete s"
    using u(2) se by (simp_all add: same_estimate_def init_inst_def)
  from play [of now1 s e2] s obtain s1 e1 out1 where
    1: "dispatch True Play now1 (s, e2) = Inr ((s1, e1), out1)"
    "\<not> startDetection_armed s1" "countFrame_pending s1 = 1"
    by auto
  from play [of now2 s1 e4] 1(2,3) obtain s2 e3 out2 where
    2: "dispatch True Play now2 (s1, e4) = Inr ((s2, e3), out2)"
    "\<not> startDetection_armed s2" "countFrame_pending s2 = 1"
    by auto
  from u(1) s(1,2) 1 2 show ?thesis by blast
qed



text \<open>
  Claim C5. In a browser without \<^verbatim>\<open>requestVideoFrameCallback\<close> no sequence of callbacks
  ends in an exception; the closure never converges and never registers or runs
  \<^verbatim>\<open>countFrame\<close> (so the forced emission of a convergence never happens), and every snapshot
  emitted, from the first one on, carries the rate 30.
\<close>

theorem fallback_without_frame_callback:
  "\<exists>s e out. run False ocs (fst (component False d now0 e0)) = Inr ((s, e), out) \<and>
     detectedFps s = 30 \<and> \<not> fpsDetectionComplete s \<and> countFrame_pending s = 0 \<and>
     \<not> startDetection_armed s \<and> frameCount s = 0 \<and> startTime s = None \<and>
     (\<forall>em\<in>set (snd (component False d now0 e0) @ out). fps (em_state em) = 30)"
proof -
  obtain s0 e1 em0 where c: "component False d now0 e0 = ((s0, e1), [em0])"
    "estimator_inv False s0" "fps (em_state em0) = 30"
    using component_sound [of False d now0 e0] by blast
  obtain s1 e1' where cf: "configure d (init_inst, e0) = (s1, e1')" by force
  from configure_estimator [OF cf] have s1: "same_estimate init_inst s1" by simp
  have "component False d now0 e0 = updateState True now0 (s1, e1')"
    using cf by (simp add: component_def detectFps_def)
  with c(1) have "s0 = s1\<lparr>lastUpdateTime := now0\<rparr>"
    using updateState_emits [of True now0 s1 e1'] by simp
  with s1 have s0: "same_estimate init_inst s0" by (simp add: same_estimate_def)
  have i: "idle s0" using c(2) by (simp add: estimator_inv_def idle_def)
  from run_sound [OF c(2), of ocs e1] i
  obtain s e out where r: "run False ocs (s0, e1) = Inr ((s, e), out)"
    "same_estimate s0 s" "\<forall>em\<in>set out. fps (em_state em) = detectedFps s0"
    by blast
  have "same_estimate init_inst s" using s0 r(2) by (rule same_estimate_trans)
  then have "detectedFps s = 30 \<and> \<not> fpsDetectionComplete s \<and> countFrame_pending s = 0 \<and>
     \<not> startDetection_armed s \<and> frameCount s = 0 \<and> startTime s = None"
    by (simp add: same_estimate_def init_inst_def)
  moreover have "detectedFps s0 = 30" using s0 by (simp add: same_estimate_def init_inst_def)
  ultimately show ?thesis using c(1,3) r(1,3) by auto
qed

text \<open>Claim C5 on a concrete run, video frames included.\<close>

theorem fallback_without_frame_callback_witness:
  "\<exists>s e out.
     run False
       [\<lparr>occ_env = (\<lambda>e. e\<lparr>paused := False\<rparr>), occ_now = 100, occ_event = Play\<rparr>,
        \<lparr>occ_env = id, occ_now = 110, occ_event = VideoFrame 0\<rparr>,
        \<lparr>occ_env = id, occ_now = 5110, occ_event = VideoFrame 5000\<rparr>,
        \<lparr>occ_env = id, occ_now = 5200, occ_event = Pause\<rparr>]
       (fst (component False None 0 initial_element)) = Inr ((s, e), out) \<and>
     detectedFps s = 30 \<and> \<not> fpsDetectionComplete s \<and>
     map (\<lambda>em. fps (em_state em)) (snd (component False None 0 initial_element) @ out) = [30, 30, 30]"
proof -
  let ?ocs = "[\<lparr>occ_env = (\<lambda>e. e\<lparr>paused := False\<rparr>), occ_now = 100, occ_event = Play\<rparr>,
        \<lparr>occ_env = id, occ_now = 110, occ_event = VideoFrame 0\<rparr>,
        \<lparr>occ_env = id, occ_now = 5110, occ_event = VideoFrame 5000\<rparr>,
        \<lparr>occ_env = id, occ_now = 5200, occ_event = Pause\<rparr>]"
  from fallback_without_frame_callback [of ?ocs None 0 initial_element]
  obtain s e out where r: "run False ?ocs (fst (component False None 0 initial_element)) = Inr ((s, e), out)"
    "detectedFps s = 30" "\<not> fpsDetectionComplete s"
    "\<forall>em\<in>set (snd (component False None 0 initial_element) @ out). fps (em_state em) = 30"
    by blast
  let ?log = "snd (component False None 0 initial_element) @ out"
  have len: "length ?log = 3"
    using r(1) by (auto simp: eval_defs)
  have "map (\<lambda>em. fps (em_state em)) ?log = map (\<lambda>_. 30) ?log"
    using r(4) by (simp only: map_eq_conv)
  also have "\<dots> = replicate (length ?log) 30"
    by (simp only: map_replicate_const)
  also have "\<dots> = [30, 30, 30]"
    by (simp only: len) (simp add: numeral_3_eq_3)
  finally have m: "map (\<lambda>em. fps (em_state em)) ?log = [30, 30, 30]" .
  from r(1) r(2) r(3) m show ?thesis
    by - (rule exI [of _ s], rule exI [of _ e], rule exI [of _ out], intro conjI, assumption+)
qed

section \<open>Bounds of a snapshot\<close>




section \<open>Seeking\<close>

lemma updateState_seeks:
  assumes "updateState force now (s, e) = ((s', e'), out)"
  shows "seekWrites s' = seekWrites s \<and> deferredSeeks s' = deferredSeeks s \<and>
         currentTime e' = currentTime e"
  using assms by (cases rule: updateState_cases [of force now s e]) auto

lemma countFrame_seeks:
  assumes "countFrame supported t now (s, e) = Inr ((s', e'), out)"
  shows "seekWrites s' = seekWrites s \<and> deferredSeeks s' = deferredSeeks s \<and>
         currentTime e' = currentTime e"
proof -
  obtain start count where sc:
    "(case startTime s of None \<Rightarrow> (t, 0) | Some u \<Rightarrow> (u, frameCount s)) = (start, count)"
    by (metis surj_pair)
  show ?thesis
  proof (cases "t - start \<ge> 1000")
    case True
    let ?s2 = "s\<lparr>startTime := Some start, frameCount := count + 1,
       detectedFps := of_int (round (real (count + 1) / ((t - start) / 1000))),
       fpsDetectionComplete := True\<rparr>"
    have "countFrame supported t now (s, e) = Inr (updateState True now (?s2, e))"
      using True sc by (simp add: countFrame_def SAMPLE_DURATION_MS_def Let_def)
    with assms have "updateState True now (?s2, e) = ((s', e'), out)" by simp
    from updateState_seeks [OF this] show ?thesis by simp
  next
    case False
    then show ?thesis
      using assms sc
      by (auto simp: countFrame_def SAMPLE_DURATION_MS_def Let_def requestVideoFrameCallback_def
          split: if_splits)
  qed
qed

lemma dispatch_other_seeks:
  assumes "dispatch supported ev now (s, e) = Inr ((s', e'), out)" "ev \<noteq> LoadedMetadata"
  shows "seekWrites s' = seekWrites s \<and> deferredSeeks s' = deferredSeeks s \<and>
         currentTime e' = currentTime e"
proof (cases ev)
  case Play
  obtain s1 e1 out1 where u: "updateState True now (startPlaybackUpdates s, e) = ((s1, e1), out1)"
    by (metis surj_pair)
  from updateState_seeks [OF u] assms(1) Play u show ?thesis
    by (auto simp: startPlaybackUpdates_def startDetection_def requestVideoFrameCallback_def
        Let_def split: if_splits sum.splits)
next
  case AnimationFrame
  obtain s1 e1 out1 where u:
    "updateState False now (s\<lparr>tick_pending := tick_pending s - 1\<rparr>, e) = ((s1, e1), out1)"
    by (metis surj_pair)
  from updateState_seeks [OF u] assms(1) AnimationFrame u show ?thesis
    by (auto simp: tick_def split: if_splits)
next
  case (VideoFrame t)
  show ?thesis
  proof (cases "countFrame_pending s = 0")
    case True
    then show ?thesis using assms(1) VideoFrame by simp
  next
    case False
    then have "countFrame supported t now (s\<lparr>countFrame_pending := countFrame_pending s - 1\<rparr>, e) =
        Inr ((s', e'), out)"
      using assms(1) VideoFrame by simp
    from countFrame_seeks [OF this] show ?thesis by simp
  qed
qed (use assms updateState_seeks in auto)

lemma dispatch_metadata_seeks:
  "\<exists>s' e' em. dispatch supported LoadedMetadata now (s, e) = Inr ((s', e'), [em]) \<and>
     seekWrites s' = seekWrites s @ deferredSeeks s \<and> deferredSeeks s' = [] \<and>
     currentTime e' = (if deferredSeeks s = [] then currentTime e else last (deferredSeeks s)) \<and>
     current_time (em_state em) = currentTime e' \<and> same_estimate s s'"
proof -
  have fold: "currentTime (foldl (\<lambda>e' t. e'\<lparr>currentTime := t\<rparr>) e ts) =
      (if ts = [] then currentTime e else last ts)" for ts
    by (induction ts arbitrary: e) auto
  let ?s = "s\<lparr>deferredSeeks := [], seekWrites := seekWrites s @ deferredSeeks s\<rparr>"
  let ?e = "foldl (\<lambda>e' t. e'\<lparr>currentTime := t\<rparr>) e (deferredSeeks s)"
  have "dispatch supported LoadedMetadata now (s, e) = Inr (updateState True now (?s, ?e))"
    by (simp add: run_deferredSeeks_def)
  then show ?thesis
    using updateState_emits [of True now ?s ?e] fold [of "deferredSeeks s"]
    by (simp add: same_estimate_def)
qed

lemma run_seeks:
  assumes "estimator_inv supported s"
  shows "\<exists>s' e' out. run supported ocs (s, e) = Inr ((s', e'), out) \<and>
     seekWrites s' = seekWrites s @
        (if LoadedMetadata \<in> occ_event ` set ocs then deferredSeeks s else []) \<and>
     deferredSeeks s' = (if LoadedMetadata \<in> occ_event ` set ocs then [] else deferredSeeks s)"
  using assms
proof (induction ocs arbitrary: s e)
  case Nil
  then show ?case by simp
next
  case (Cons oc ocs)
  from step_sound [OF Cons.prems, of oc e]
  obtain s1 e1 out1 where 1: "step supported oc (s, e) = Inr ((s1, e1), out1)"
    "estimator_inv supported s1"
    by blast
  from Cons.IH [OF 1(2), of e1]
  obtain s2 e2 out2 where 2: "run supported ocs (s1, e1) = Inr ((s2, e2), out2)"
    "seekWrites s2 = seekWrites s1 @
        (if LoadedMetadata \<in> occ_event ` set ocs then deferredSeeks s1 else [])"
    "deferredSeeks s2 = (if LoadedMetadata \<in> occ_event ` set ocs then [] else deferredSeeks s1)"
    by blast
  have r: "run supported (oc # ocs) (s, e) = Inr ((s2, e2), out1 @ out2)"
    using 1(1) 2(1) by simp
  have d: "dispatch supported (occ_event oc) (occ_now oc) (s, occ_env oc e) = Inr ((s1, e1), out1)"
    using 1(1) by (simp add: step_def)
  show ?case
  proof (cases "occ_event oc = LoadedMetadata")
    case True
    with d dispatch_metadata_seeks [of supported "occ_now oc" s "occ_env oc e"]
    have "seekWrites s1 = seekWrites s @ deferredSeeks s" "deferredSeeks s1 = []"
      by auto
    then show ?thesis using r 2(2,3) True by auto
  next
    case False
    from dispatch_other_seeks [OF d False]
    have "seekWrites s1 = seekWrites s" "deferredSeeks s1 = deferredSeeks s" by simp_all
    then show ?thesis using r 2(2,3) False by auto
  qed
qed

lemma component_seek:
  assumes "d_seek_to d = Some t"
  shows "\<exists>s e' out. component supported (Some d) now e = ((s, e'), out) \<and>
      estimator_inv supported s \<and>
      (1 \<le> readyState e \<longrightarrow> currentTime e' = t \<and> seekWrites s = [t] \<and> deferredSeeks s = []) \<and>
      (readyState e < 1 \<longrightarrow>
         currentTime e' = currentTime e \<and> seekWrites s = [] \<and> deferredSeeks s = [t])"
proof -
  obtain s e' em where c: "component supported (Some d) now e = ((s, e'), [em])"
    "estimator_inv supported s"
    using component_sound [of supported "Some d" now e] by blast
  let ?e = "apply_loop d (apply_autoplay d (apply_height d (apply_src d e)))"
  have e: "readyState ?e = readyState e" "currentTime ?e = currentTime e"
    by (auto simp: apply_loop_def apply_autoplay_def apply_height_def apply_src_def
        split: option.splits)
  obtain s1 e1 where g: "seek_gate d (init_inst, ?e) = (s1, e1)" by force
  then have g': "(1 \<le> readyState e \<longrightarrow> currentTime e1 = t \<and> seekWrites s1 = [t] \<and> deferredSeeks s1 = []) \<and>
      (readyState e < 1 \<longrightarrow>
         currentTime e1 = currentTime e \<and> seekWrites s1 = [] \<and> deferredSeeks s1 = [t])"
    using assms e by (auto simp: seek_gate_def init_inst_def Let_def split: if_splits)
  have "component supported (Some d) now e = updateState True now (detectFps supported s1, e1)"
    using g by (simp add: component_def configure_def)
  with c(1) have u: "updateState True now (detectFps supported s1, e1) = ((s, e'), [em])" by simp
  from updateState_seeks [OF u] g' have
    "(1 \<le> readyState e \<longrightarrow> currentTime e' = t \<and> seekWrites s = [t] \<and> deferredSeeks s = []) \<and>
      (readyState e < 1 \<longrightarrow>
         currentTime e' = currentTime e \<and> seekWrites s = [] \<and> deferredSeeks s = [t])"
    by (auto simp: detectFps_def)
  with c show ?thesis by blast
qed

text \<open>
  Claim C6. When the exported function is given a seek target \<open>t\<close>: with
  \<^verbatim>\<open>readyState\<close> at least 1 it assigns \<open>t\<close> to \<^verbatim>\<open>currentTime\<close> at once and registers
  nothing; otherwise it leaves \<^verbatim>\<open>currentTime\<close> alone and registers one one-shot listener.
  After any sequence of callbacks, this invocation has assigned \<^verbatim>\<open>currentTime\<close> exactly
  once if the metadata was there or a \<^verbatim>\<open>loadedmetadata\<close> event has come, and never
  otherwise, and then no listener is left. The \<^verbatim>\<open>loadedmetadata\<close> event that finds the
  listener sets the position to \<open>t\<close> before the snapshot of that event is taken.
\<close>

theorem seek_immediate_or_deferred:
  "d_seek_to d = Some t \<longrightarrow>
   (\<exists>s e' out0. component supported (Some d) now0 e = ((s, e'), out0) \<and>
      (1 \<le> readyState e \<longrightarrow> currentTime e' = t \<and> seekWrites s = [t] \<and> deferredSeeks s = []) \<and>
      (readyState e < 1 \<longrightarrow>
         currentTime e' = currentTime e \<and> seekWrites s = [] \<and> deferredSeeks s = [t]) \<and>
      (\<exists>s' e'' out. run supported ocs (s, e') = Inr ((s', e''), out) \<and>
         seekWrites s' =
           (if 1 \<le> readyState e \<or> LoadedMetadata \<in> occ_event ` set ocs then [t] else []) \<and>
         deferredSeeks s' =
           (if 1 \<le> readyState e \<or> LoadedMetadata \<in> occ_event ` set ocs then [] else [t]))) \<and>
   (deferredSeeks s1 = [t] \<longrightarrow>
      (\<exists>s2 e2 em. dispatch supported LoadedMetadata now (s1, e1) = Inr ((s2, e2), [em]) \<and>
         currentTime e2 = t \<and> current_time (em_state em) = t \<and>
         seekWrites s2 = seekWrites s1 @ [t] \<and> deferredSeeks s2 = []))"
proof (intro conjI impI)
  assume a: "d_seek_to d = Some t"
  from component_seek [OF a, of supported now0 e]
  obtain s e' out0 where c: "component supported (Some d) now0 e = ((s, e'), out0)"
      "estimator_inv supported s"
      "1 \<le> readyState e \<longrightarrow> currentTime e' = t \<and> seekWrites s = [t] \<and> deferredSeeks s = []"
      "readyState e < 1 \<longrightarrow>
         currentTime e' = currentTime e \<and> seekWrites s = [] \<and> deferredSeeks s = [t]"
    by blast
  from run_seeks [OF c(2), of ocs e']
  obtain s' e'' out where r: "run supported ocs (s, e') = Inr ((s', e''), out)"
     "seekWrites s' = seekWrites s @
        (if LoadedMetadata \<in> occ_event ` set ocs then deferredSeeks s else [])"
     "deferredSeeks s' = (if LoadedMetadata \<in> occ_event ` set ocs then [] else deferredSeeks s)"
    by blast
  have "seekWrites s' =
           (if 1 \<le> readyState e \<or> LoadedMetadata \<in> occ_event ` set ocs then [t] else []) \<and>
         deferredSeeks s' =
           (if 1 \<le> readyState e \<or> LoadedMetadata \<in> occ_event ` set ocs then [] else [t])"
    using r(2,3) c(3,4) by (cases "1 \<le> readyState e") auto
  with c r(1) show "\<exists>s e' out0. component supported (Some d) now0 e = ((s, e'), out0) \<and>
      (1 \<le> readyState e \<longrightarrow> currentTime e' = t \<and> seekWrites s = [t] \<and> deferredSeeks s = []) \<and>
      (readyState e < 1 \<longrightarrow>
         currentTime e' = currentTime e \<and> seekWrites s = [] \<and> deferredSeeks s = [t]) \<and>
      (\<exists>s' e'' out. run supported ocs (s, e') = Inr ((s', e''), out) \<and>
         seekWrites s' =
           (if 1 \<le> readyState e \<or> LoadedMetadata \<in> occ_event ` set ocs then [t] else []) \<and>
         deferredSeeks s' =
           (if 1 \<le> readyState e \<or> LoadedMetadata \<in> occ_event ` set ocs then [] else [t]))"
    by blast
next
  assume "deferredSeeks s1 = [t]"
  then show "\<exists>s2 e2 em. dispatch supported LoadedMetadata now (s1, e1) = Inr ((s2, e2), [em]) \<and>
         currentTime e2 = t \<and> current_time (em_state em) = t \<and>
         seekWrites s2 = seekWrites s1 @ [t] \<and> deferredSeeks s2 = []"
    using dispatch_metadata_seeks [of supported now s1 e1] by auto
qed

text \<open>
  Claim C6 on concrete inputs: a seek to 10 on an element without metadata, applied by the
  first of two \<^verbatim>\<open>loadedmetadata\<close> events and not by the second (the user has moved to 25
  in between); and the same seek on an element with metadata.
\<close>

theorem seek_immediate_or_deferred_witness:
  "(\<exists>s e' out0 s' e'' out.
      component True
        (Some \<lparr>d_video_src = ''https://example.com/v.mp4'', d_seek_to = Some 10,
               d_height = Some 400, d_autoplay = False, d_loop = False\<rparr>) 1000 initial_element
        = ((s, e'), out0) \<and>
      currentTime e' = 0 \<and> seekWrites s = [] \<and> deferredSeeks s = [10] \<and>
      run True
        [\<lparr>occ_env = (\<lambda>e. e\<lparr>readyState := 1, duration := Some 60\<rparr>), occ_now = 1500,
          occ_event = LoadedMetadata\<rparr>,
         \<lparr>occ_env = (\<lambda>e. e\<lparr>currentTime := 25\<rparr>), occ_now = 9000, occ_event = Seeked\<rparr>,
         \<lparr>occ_env = id, occ_now = 9500, occ_event = LoadedMetadata\<rparr>]
        (s, e') = Inr ((s', e''), out) \<and>
      seekWrites s' = [10] \<and> deferredSeeks s' = [] \<and> currentTime e'' = 25) \<and>
   (\<exists>s e' out0.
      component True
        (Some \<lparr>d_video_src = ''https://example.com/v.mp4'', d_seek_to = Some 10,
               d_height = Some 400, d_autoplay = False, d_loop = False\<rparr>) 1000
        (initial_element\<lparr>readyState := 1, duration := Some 60\<rparr>)
        = ((s, e'), out0) \<and>
      currentTime e' = 10 \<and> seekWrites s = [10] \<and> deferredSeeks s = [])"
proof -
  let ?d = "\<lparr>d_video_src = ''https://example.com/v.mp4'', d_seek_to = Some 10,
               d_height = Some 400, d_autoplay = False, d_loop = False\<rparr>"
  let ?ocs = "[\<lparr>occ_env = (\<lambda>e. e\<lparr>readyState := 1, duration := Some 60\<rparr>), occ_now = 1500,
          occ_event = LoadedMetadata\<rparr>,
         \<lparr>occ_env = (\<lambda>e. e\<lparr>currentTime := 25\<rparr>), occ_now = 9000, occ_event = Seeked\<rparr>,
         \<lparr>occ_env = id, occ_now = 9500, occ_event = LoadedMetadata\<rparr>]"
  have d: "d_seek_to ?d = Some 10" by simp
  have rs: "readyState initial_element < 1"
    "1 \<le> readyState (initial_element\<lparr>readyState := 1, duration := Some 60\<rparr>)"
    "currentTime initial_element = 0"
    by (simp_all add: initial_element_def)
  have ev: "LoadedMetadata \<in> occ_event ` set ?ocs" by simp
  let ?e1 = "initial_element\<lparr>readyState := 1, duration := Some 60\<rparr>"
  from seek_immediate_or_deferred [of ?d 10 True 1000 initial_element ?ocs] d
  obtain s e' out0 s' e'' out where 1:
    "component True (Some ?d) 1000 initial_element = ((s, e'), out0)"
    "readyState initial_element < 1 \<longrightarrow>
       currentTime e' = currentTime initial_element \<and> seekWrites s = [] \<and> deferredSeeks s = [10]"
    "run True ?ocs (s, e') = Inr ((s', e''), out)"
    "seekWrites s' =
       (if 1 \<le> readyState initial_element \<or> LoadedMetadata \<in> occ_event ` set ?ocs then [10] else [])"
    "deferredSeeks s' =
       (if 1 \<le> readyState initial_element \<or> LoadedMetadata \<in> occ_event ` set ?ocs then [] else [10])"
    by blast
  have a: "currentTime e' = 0" "seekWrites s = []" "deferredSeeks s = [10]"
    using 1(2) rs by simp_all
  have b: "seekWrites s' = [10]" "deferredSeeks s' = []"
    using 1(4,5) ev by simp_all
  have ct: "currentTime e'' = 25"
    using 1(1,3) by (auto simp: eval_defs)
  from seek_immediate_or_deferred [of ?d 10 True 1000 ?e1 "[]"] d
  obtain s2 e2 out2 where 2:
    "component True (Some ?d) 1000 ?e1 = ((s2, e2), out2)"
    "1 \<le> readyState ?e1 \<longrightarrow> currentTime e2 = 10 \<and> seekWrites s2 = [10] \<and> deferredSeeks s2 = []"
    by blast
  have c: "currentTime e2 = 10" "seekWrites s2 = [10]" "deferredSeeks s2 = []"
    using 2(2) rs by simp_all
  have A: "\<exists>s e' out0 s' e'' out.
      component True (Some ?d) 1000 initial_element = ((s, e'), out0) \<and>
      currentTime e' = 0 \<and> seekWrites s = [] \<and> deferredSeeks s = [10] \<and>
      run True ?ocs (s, e') = Inr ((s', e''), out) \<and>
      seekWrites s' = [10] \<and> deferredSeeks s' = [] \<and> currentTime e'' = 25"
    using 1(1,3) a b ct by blast
  have B: "\<exists>s e' out0. component True (Some ?d) 1000 ?e1 = ((s, e'), out0) \<and>
      currentTime e' = 10 \<and> seekWrites s = [10] \<and> deferredSeeks s = []"
    using 2(1) c by blast
  from A B show ?thesis by (rule conjI)
qed

text \<open>
  Claim C3 fails on the code. \<^verbatim>\<open>lastSeekTo\<close> is a variable of the exported function's
  body, set to \<^verbatim>\<open>null\<close> each time the function runs, and the seek gate runs once in that
  body: when it compares \<^verbatim>\<open>data.seek_to\<close> with \<^verbatim>\<open>lastSeekTo\<close>, the latter is always
  \<^verbatim>\<open>null\<close>. So the gate of an invocation acts on every target that is not \<^verbatim>\<open>null\<close>:
\<close>

lemma gate_in_component_ignores_lastSeekTo:
  "fst (configure (Some d) (init_inst, e)) =
     (case d_seek_to d of
        None \<Rightarrow> init_inst
      | Some t \<Rightarrow>
          if 1 \<le> readyState e then init_inst\<lparr>lastSeekTo := Some t, seekWrites := [t]\<rparr>
          else init_inst\<lparr>lastSeekTo := Some t, deferredSeeks := [t]\<rparr>)"
  by (auto simp: configure_def seek_gate_def init_inst_def apply_loop_def apply_autoplay_def
      apply_height_def apply_src_def Let_def split: option.splits)

text \<open>
  Claim C3, at the failing input: the host renders twice with the seek target 10 on a
  loaded element, and the user moves to 20 in between. The second invocation sets the
  position back to 10.
\<close>

theorem seek_reissue_resets_position:
  "currentTime (snd (fst (component True
      (Some \<lparr>d_video_src = ''https://example.com/v.mp4'', d_seek_to = Some 10,
             d_height = Some 400, d_autoplay = False, d_loop = False\<rparr>) 1000
      (initial_element\<lparr>readyState := 4, duration := Some 60\<rparr>)))) = 10 \<and>
   currentTime (snd (fst (component True
      (Some \<lparr>d_video_src = ''https://example.com/v.mp4'', d_seek_to = Some 10,
             d_height = Some 400, d_autoplay = False, d_loop = False\<rparr>) 2000
      ((snd (fst (component True
         (Some \<lparr>d_video_src = ''https://example.com/v.mp4'', d_seek_to = Some 10,
             d_height = Some 400, d_autoplay = False, d_loop = False\<rparr>) 1000
         (initial_element\<lparr>readyState := 4, duration := Some 60\<rparr>))))\<lparr>currentTime := 20\<rparr>)))) = 10 \<and>
   seekWrites (fst (fst (component True
      (Some \<lparr>d_video_src = ''https://example.com/v.mp4'', d_seek_to = Some 10,
             d_height = Some 400, d_autoplay = False, d_loop = False\<rparr>) 2000
      ((snd (fst (component True
         (Some \<lparr>d_video_src = ''https://example.com/v.mp4'', d_seek_to = Some 10,
             d_height = Some 400, d_autoplay = False, d_loop = False\<rparr>) 1000
         (initial_element\<lparr>readyState := 4, duration := Some 60\<rparr>))))\<lparr>currentTime := 20\<rparr>)))) = [10]"
  by (simp add: eval_defs)

section \<open>Configuration flags\<close>

text \<open>
  Claim C9 as stated fails: after a render with autoplay and loop on, a render with both
  off leaves both flags of the element on.
\<close>

theorem flag_stays_on_when_host_sends_false:
  "autoplay (snd (fst (component True
      (Some \<lparr>d_video_src = ''https://example.com/v.mp4'', d_seek_to = None,
             d_height = Some 400, d_autoplay = False, d_loop = False\<rparr>) 2000
      (snd (fst (component True
         (Some \<lparr>d_video_src = ''https://example.com/v.mp4'', d_seek_to = None,
             d_height = Some 400, d_autoplay = True, d_loop = True\<rparr>) 1000
         initial_element)))))) \<and>
   loop (snd (fst (component True
      (Some \<lparr>d_video_src = ''https://example.com/v.mp4'', d_seek_to = None,
             d_height = Some 400, d_autoplay = False, d_loop = False\<rparr>) 2000
      (snd (fst (component True
         (Some \<lparr>d_video_src = ''https://example.com/v.mp4'', d_seek_to = None,
             d_height = Some 400, d_autoplay = True, d_loop = True\<rparr>) 1000
         initial_element))))))"
  by (simp add: eval_defs)

lemma component_config:
  "\<exists>s e' out. component supported (Some d) now e = ((s, e'), out) \<and>
     autoplay e' = (d_autoplay d \<or> autoplay e) \<and> loop e' = (d_loop d \<or> loop e) \<and>
     src e' = (if d_video_src d \<noteq> [] then d_video_src d else src e) \<and>
     maxHeight e' = (case d_height d of None \<Rightarrow> maxHeight e
                      | Some h \<Rightarrow> if h \<noteq> 0 then Some h else maxHeight e) \<and>
     container_height e' = (case d_height d of None \<Rightarrow> container_height e
                      | Some h \<Rightarrow> if h \<noteq> 0 then Some h else container_height e)"
proof -
  let ?e = "apply_loop d (apply_autoplay d (apply_height d (apply_src d e)))"
  have e: "autoplay ?e = (d_autoplay d \<or> autoplay e)" "loop ?e = (d_loop d \<or> loop e)"
    "src ?e = (if d_video_src d \<noteq> [] then d_video_src d else src e)"
    "maxHeight ?e = (case d_height d of None \<Rightarrow> maxHeight e
                      | Some h \<Rightarrow> if h \<noteq> 0 then Some h else maxHeight e)"
    "container_height ?e = (case d_height d of None \<Rightarrow> container_height e
                      | Some h \<Rightarrow> if h \<noteq> 0 then Some h else container_height e)"
    by (auto simp: apply_loop_def apply_autoplay_def apply_height_def apply_src_def
        split: option.splits)
  obtain s1 e1 where g: "seek_gate d (init_inst, ?e) = (s1, e1)" by force
  then have g': "autoplay e1 = autoplay ?e" "loop e1 = loop ?e" "src e1 = src ?e"
    "maxHeight e1 = maxHeight ?e" "container_height e1 = container_height ?e"
    by (auto simp: seek_gate_def Let_def split: option.splits if_splits)
  have c: "component supported (Some d) now e = updateState True now (detectFps supported s1, e1)"
    using g by (simp add: component_def configure_def)
  show ?thesis
    unfolding c using updateState_emits [of True now "detectFps supported s1" e1] e g'
    by simp
qed

text \<open>
  Claim C9, amended. After the exported function has run with host values \<open>a\<close> and \<open>l\<close>,
  the element's autoplay flag is \<open>a\<close> or its value before, and its loop flag is \<open>l\<close> or its
  value before: a flag is switched on and never off. Running the function again with the
  same configuration changes neither flag, nor the source, nor the heights.
\<close>

theorem flags_only_switched_on:
  "\<exists>s e' out s2 e2 out2.
     component supported (Some d) now e = ((s, e'), out) \<and>
     autoplay e' = (d_autoplay d \<or> autoplay e) \<and> loop e' = (d_loop d \<or> loop e) \<and>
     component supported (Some d) now2 e' = ((s2, e2), out2) \<and>
     autoplay e2 = autoplay e' \<and> loop e2 = loop e' \<and> src e2 = src e' \<and>
     maxHeight e2 = maxHeight e' \<and> container_height e2 = container_height e'"
proof -
  from component_config [of supported d now e]
  obtain s e' out where 1: "component supported (Some d) now e = ((s, e'), out)"
     "autoplay e' = (d_autoplay d \<or> autoplay e)" "loop e' = (d_loop d \<or> loop e)"
     "src e' = (if d_video_src d \<noteq> [] then d_video_src d else src e)"
     "maxHeight e' = (case d_height d of None \<Rightarrow> maxHeight e
                      | Some h \<Rightarrow> if h \<noteq> 0 then Some h else maxHeight e)"
     "container_height e' = (case d_height d of None \<Rightarrow> container_height e
                      | Some h \<Rightarrow> if h \<noteq> 0 then Some h else container_height e)"
    by blast
  from component_config [of supported d now2 e']
  obtain s2 e2 out2 where 2: "component supported (Some d) now2 e' = ((s2, e2), out2)"
     "autoplay e2 = (d_autoplay d \<or> autoplay e')" "loop e2 = (d_loop d \<or> loop e')"
     "src e2 = (if d_video_src d \<noteq> [] then d_video_src d else src e')"
     "maxHeight e2 = (case d_height d of None \<Rightarrow> maxHeight e'
                      | Some h \<Rightarrow> if h \<noteq> 0 then Some h else maxHeight e')"
     "container_height e2 = (case d_height d of None \<Rightarrow> container_height e'
                      | Some h \<Rightarrow> if h \<noteq> 0 then Some h else container_height e')"
    by blast
  have "autoplay e2 = autoplay e'" "loop e2 = loop e'" "src e2 = src e'"
    "maxHeight e2 = maxHeight e'" "container_height e2 = container_height e'"
    using 1(2-6) 2(2-6) by (auto split: option.splits)
  with 1(1,2,3) 2(1) show ?thesis by blast
qed

text \<open>Claim C9, amended, on the element of the template: the flags are the host's values.\<close>

theorem flags_only_switched_on_witness:
  "\<exists>s e' out. component True
      (Some \<lparr>d_video_src = ''https://example.com/v.mp4'', d_seek_to = None,
             d_height = Some 400, d_autoplay = False, d_loop = True\<rparr>) 1000 initial_element
      = ((s, e'), out) \<and> \<not> autoplay e' \<and> loop e'"
proof -
  from flags_only_switched_on [of True "\<lparr>d_video_src = ''https://example.com/v.mp4'', d_seek_to = None,
             d_height = Some 400, d_autoplay = False, d_loop = True\<rparr>" 1000 initial_element 2000]
  obtain s e' out where 1: "component True
      (Some \<lparr>d_video_src = ''https://example.com/v.mp4'', d_seek_to = None,
             d_height = Some 400, d_autoplay = False, d_loop = True\<rparr>) 1000 initial_element
      = ((s, e'), out)"
    "autoplay e' = (d_autoplay \<lparr>d_video_src = ''https://example.com/v.mp4'', d_seek_to = None,
             d_height = Some 400, d_autoplay = False, d_loop = True\<rparr> \<or> autoplay initial_element)"
    "loop e' = (d_loop \<lparr>d_video_src = ''https://example.com/v.mp4'', d_seek_to = None,
             d_height = Some 400, d_autoplay = False, d_loop = True\<rparr> \<or> loop initial_element)"
    by blast
  have "\<not> autoplay e'" "loop e'" using 1(2,3) by (simp_all add: initial_element_def)
  with 1(1) show ?thesis by blast
qed

section \<open>Source preparation\<close>

lemma prepare_str_not_found:
  "(\<exists>msg. prepare_str guess_type b64encode fs p = Inl (FileNotFoundError msg)) \<longleftrightarrow>
   \<not> startswith p [''data:'', ''http://'', ''https://'', ''blob:''] \<and> fs p = None"
  by (auto simp: prepare_str_def split: option.splits fs_node.splits)

text \<open>
  Claim C8. For a string or a path that has none of the four URL prefixes and names no
  entry of the file system, \<^verbatim>\<open>_prepare_video_source\<close> raises \<^verbatim>\<open>FileNotFoundError\<close>, and
  \<^verbatim>\<open>video_player\<close> raises it too and leaves the page as it was: the component is not
  called. \<^verbatim>\<open>_prepare_video_source\<close> raises \<^verbatim>\<open>FileNotFoundError\<close> for no other source. Whenever
  \<^verbatim>\<open>video_player\<close> raises, the exception is the one of the source preparation and the page
  is unchanged; whenever it returns, it has called the component exactly once, with the
  prepared source.
\<close>

theorem missing_file_is_error:
  "(\<not> startswith p [''data:'', ''http://'', ''https://'', ''blob:''] \<and> fs p = None \<longrightarrow>
      prepare_video_source guess_type b64encode fs (Str p) =
        Inl (FileNotFoundError (''Video file not found: '' @ p)) \<and>
      prepare_video_source guess_type b64encode fs (PathObj p) =
        Inl (FileNotFoundError (''Video file not found: '' @ p)) \<and>
      video_player guess_type b64encode fs call_component (Str p) key seek_to height a l page =
        (Inl (FileNotFoundError (''Video file not found: '' @ p)), page) \<and>
      video_player guess_type b64encode fs call_component (PathObj p) key seek_to height a l page =
        (Inl (FileNotFoundError (''Video file not found: '' @ p)), page)) \<and>
   ((\<exists>msg. prepare_video_source guess_type b64encode fs source = Inl (FileNotFoundError msg)) \<longleftrightarrow>
      (\<exists>q. (source = Str q \<or> source = PathObj q) \<and>
         \<not> startswith q [''data:'', ''http://'', ''https://'', ''blob:''] \<and> fs q = None)) \<and>
   (case video_player guess_type b64encode fs call_component source key seek_to height a l page of
      (Inl err, page') \<Rightarrow>
         page' = page \<and> prepare_video_source guess_type b64encode fs source = Inl err
    | (Inr state, page') \<Rightarrow>
         (\<exists>video_src. prepare_video_source guess_type b64encode fs source = Inr video_src \<and>
            page' = page @ [(\<lparr>d_video_src = video_src, d_seek_to = seek_to,
                               d_height = Some height, d_autoplay = a, d_loop = l\<rparr>, key)]))"
proof (intro conjI impI)
  assume a: "\<not> startswith p [''data:'', ''http://'', ''https://'', ''blob:''] \<and> fs p = None"
  then have 1: "prepare_str guess_type b64encode fs p =
      Inl (FileNotFoundError (''Video file not found: '' @ p))"
    by (simp add: prepare_str_def)
  then show "prepare_video_source guess_type b64encode fs (Str p) =
        Inl (FileNotFoundError (''Video file not found: '' @ p))"
    "prepare_video_source guess_type b64encode fs (PathObj p) =
        Inl (FileNotFoundError (''Video file not found: '' @ p))"
    "video_player guess_type b64encode fs call_component (Str p) key seek_to height a l page =
        (Inl (FileNotFoundError (''Video file not found: '' @ p)), page)"
    "video_player guess_type b64encode fs call_component (PathObj p) key seek_to height a l page =
        (Inl (FileNotFoundError (''Video file not found: '' @ p)), page)"
    by (simp_all add: video_player_def)
next
  show "(\<exists>msg. prepare_video_source guess_type b64encode fs source = Inl (FileNotFoundError msg)) \<longleftrightarrow>
      (\<exists>q. (source = Str q \<or> source = PathObj q) \<and>
         \<not> startswith q [''data:'', ''http://'', ''https://'', ''blob:''] \<and> fs q = None)"
    using prepare_str_not_found [of guess_type b64encode fs]
    by (cases source) auto
next
  show "case video_player guess_type b64encode fs call_component source key seek_to height a l page of
      (Inl err, page') \<Rightarrow>
         page' = page \<and> prepare_video_source guess_type b64encode fs source = Inl err
    | (Inr state, page') \<Rightarrow>
         (\<exists>video_src. prepare_video_source guess_type b64encode fs source = Inr video_src \<and>
            page' = page @ [(\<lparr>d_video_src = video_src, d_seek_to = seek_to,
                               d_height = Some height, d_autoplay = a, d_loop = l\<rparr>, key)])"
    by (cases "prepare_video_source guess_type b64encode fs source")
       (simp_all add: video_player_def Let_def)
qed

text \<open>Claim C8 on the missing file \<^verbatim>\<open>missing.mp4\<close>.\<close>

theorem missing_file_is_error_witness:
  "video_player (\<lambda>_. None) (\<lambda>_. []) (\<lambda>_. None) (\<lambda>_ _. ResultNone) (Str ''missing.mp4'')
      (Some ''my_video'') None 400 False False [] =
     (Inl (FileNotFoundError ''Video file not found: missing.mp4''), []) \<and>
   prepare_video_source (\<lambda>_. None) (\<lambda>_. []) (\<lambda>_. None) (Str ''missing.mp4'') =
     Inl (FileNotFoundError ''Video file not found: missing.mp4'')"
proof -
  have h: "\<not> startswith ''missing.mp4'' [''data:'', ''http://'', ''https://'', ''blob:''] \<and>
      (\<lambda>_. None :: fs_node option) ''missing.mp4'' = None"
    by (simp add: startswith_def)
  have m: "''Video file not found: '' @ ''missing.mp4'' = ''Video file not found: missing.mp4''"
    by simp
  from missing_file_is_error [of "''missing.mp4''" "\<lambda>_. None" "\<lambda>_. None" "\<lambda>_. []" "\<lambda>_ _. ResultNone"
      "Some ''my_video''" None 400 False False "[]"] h
  show ?thesis unfolding m by blast
qed

text \<open>A file whose MIME type is not known is embedded as \<^verbatim>\<open>video/mp4\<close>.\<close>

lemma clip_mov_fallback_mime:
  "prepare_video_source (\<lambda>_. None) b64encode (\<lambda>p. if p = ''clip.mov'' then Some (File content) else None)
     (Str ''clip.mov'') = Inr (''data:video/mp4;base64,'' @ b64encode content)"
  by (simp add: prepare_str_def startswith_def get_mime_type_def)

end
